theory Spec2Isabelle
  imports Main "HOL-Library.Word"
begin

section \<open>JavaScript values used by migrator.js\<close>

text \<open>
  A JavaScript string is a sequence of 16-bit code units; \<open>length\<close> counts code units and
  the regular expression \<open>/\<bsol>s/g\<close> (no \<open>u\<close> flag) works on single code units.
\<close>

type_synonym jschar = "16 word"
type_synonym jsstring = "jschar list"

text \<open>An ASCII literal of the source as a JavaScript string.\<close>

definition js :: "string \<Rightarrow> jsstring" where
  "js cs = map (\<lambda>c. of_nat (of_char c)) cs"

text \<open>
  The class \<open>\<bsol>s\<close> of ECMAScript: WhiteSpace and LineTerminator, that is TAB, LF, VT, FF,
  CR, SPACE, NBSP, U+1680, U+2000 to U+200A, U+2028, U+2029, U+202F, U+205F, U+3000 and
  U+FEFF. (Engines built on Unicode before 6.3 also count U+180E.)
\<close>

definition is_whitespace :: "jschar \<Rightarrow> bool" where
  "is_whitespace c \<longleftrightarrow>
     (9 \<le> c \<and> c \<le> 13) \<or> c = 32 \<or> c = 160 \<or> c = 0x1680 \<or>
     (0x2000 \<le> c \<and> c \<le> 0x200A) \<or> c = 0x2028 \<or> c = 0x2029 \<or> c = 0x202F \<or>
     c = 0x205F \<or> c = 0x3000 \<or> c = 0xFEFF"

text \<open>\<open>s.replace(/\<bsol>s/g, "_")\<close>: every whitespace code unit becomes \<open>_\<close> (code unit 95).\<close>

definition replace_whitespace :: "jsstring \<Rightarrow> jsstring" where
  "replace_whitespace s = map (\<lambda>c. if is_whitespace c then 95 else c) s"

text \<open>\<open>xs.join(sep)\<close> on an array of strings.\<close>

fun join :: "jsstring \<Rightarrow> jsstring list \<Rightarrow> jsstring" where
  "join sep [] = []"
| "join sep [x] = x"
| "join sep (x # y # ys) = x @ sep @ join sep (y # ys)"

text \<open>\<open>xs[i]\<close>: reading past the end of an array gives \<open>undefined\<close> (\<open>None\<close>), it does not raise.\<close>

definition js_index :: "'a list \<Rightarrow> nat \<Rightarrow> 'a option" where
  "js_index xs i = (if i < length xs then Some (xs ! i) else None)"

text \<open>
  \<open>xs.sort(cmp)\<close> as a stable insertion sort: \<open>x\<close> goes before the first \<open>y\<close> with
  \<open>cmp(x, y) \<le> 0\<close>. (Among keys of equal length the order of the result is the engine's
  choice before ES2019; the model takes the stable one.)
\<close>

fun insert_cmp :: "('a \<Rightarrow> 'a \<Rightarrow> int) \<Rightarrow> 'a \<Rightarrow> 'a list \<Rightarrow> 'a list" where
  "insert_cmp cmp x [] = [x]"
| "insert_cmp cmp x (y # ys) =
     (if cmp x y \<le> 0 then x # y # ys else y # insert_cmp cmp x ys)"

definition js_sort :: "('a \<Rightarrow> 'a \<Rightarrow> int) \<Rightarrow> 'a list \<Rightarrow> 'a list" where
  "js_sort cmp xs = foldr (insert_cmp cmp) xs []"

text \<open>Truthiness of a value that is \<open>undefined\<close> (\<open>None\<close>) or a boolean.\<close>

definition js_truthy :: "bool option \<Rightarrow> bool" where
  "js_truthy v = (case v of None \<Rightarrow> False | Some b \<Rightarrow> b)"

section \<open>Data model\<close>

type_synonym objid = nat

text \<open>
  A document of the \<open>teams\<close> collection. \<open>business_objects\<close> is the object
  \<open>team["business-objects"]\<close> as the list of its (key, value) properties in the order
  \<open>Object.keys\<close> enumerates them; \<open>team_id\<close> is \<open>_id\<close>.
\<close>

record team =
  team_id :: objid
  name :: jsstring
  code :: jsstring
  defaultTeam :: bool
  business_objects :: "(jsstring \<times> jsstring list) list"
  users :: "jsstring list"

datatype error =
    DomainMustBeDefined  \<comment> \<open>\<open>Error("Domain must be defined")\<close>\<close>
  | MustRunOnFhAaa  \<comment> \<open>\<open>Error("Script must be run on fh-aaa database")\<close>\<close>
  | TypeError  \<comment> \<open>a property read or a method call on \<open>undefined\<close>\<close>
  | ReferenceError  \<comment> \<open>a read of a global that was never declared\<close>

section \<open>getLowestLevel and createTeamCode\<close>

text \<open>
  \<open>getLowestLevel(team)\<close>: \<open>team\<close> may be \<open>undefined\<close> (\<open>None\<close>), and then
  \<open>team["business-objects"]\<close> throws. The keys are sorted by descending length and element 0
  is returned, \<open>undefined\<close> when there is no key.
\<close>

definition getLowestLevel :: "team option \<Rightarrow> error + jsstring option" where
  "getLowestLevel team =
     (case team of
        None \<Rightarrow> Inl TypeError
      | Some t \<Rightarrow>
          (let boh = business_objects t;
               hierarchy = map fst boh
           in Inr (js_index
                (js_sort (\<lambda>a b. int (length b) - int (length a)) hierarchy) 0)))"

text \<open>
  \<open>createTeamCode(team)\<close>, with the global \<open>domain\<close> as its first argument (\<open>None\<close>: never
  declared). \<open>boh[undefined]\<close> reads the property named \<open>"undefined"\<close>; \<open>.join\<close> on a missing
  property throws.
\<close>

definition createTeamCode :: "jsstring option \<Rightarrow> team \<Rightarrow> error + jsstring" where
  "createTeamCode dmn t =
     (case getLowestLevel (Some t) of
        Inl e \<Rightarrow> Inl e
      | Inr lowestLevel \<Rightarrow>
          (case map_of (business_objects t)
                  (case lowestLevel of None \<Rightarrow> js ''undefined'' | Some l \<Rightarrow> l) of
             None \<Rightarrow> Inl TypeError
           | Some lowestLevelBOs \<Rightarrow>
               (let guidString = join (js ''-'') lowestLevelBOs in
                case dmn of
                  None \<Rightarrow> Inl ReferenceError
                | Some d \<Rightarrow>
                    Inr (replace_whitespace (join (js ''-'') [d, guidString, name t])))))"

section \<open>checkDups\<close>

text \<open>The lines the script prints through \<open>log\<close>, by their text and arguments.\<close>

datatype msg =
    UsingDomain jsstring  \<comment> \<open>\<open>"using domain: " + domain\<close>\<close>
  | NothingToDo  \<comment> \<open>\<open>"All good, nothing to do. Aborting script."\<close>\<close>
  | ConsultCustomer jsstring
      \<comment> \<open>\<open>"Problem with team '" + fa.name + "': Duplicates on the same level. Consult customer. "\<close>\<close>
  | SameLevelDeletable
      \<comment> \<open>\<open>"Duplicate teams on same level, but one of them can be deleted because it has no users"\<close>\<close>
  | CanBeMigrated jsstring
      \<comment> \<open>\<open>"Duplicate teams '" + fa.name + "' on different levels. Can be migrated"\<close>\<close>
  | DifferentLevelDeletable
      \<comment> \<open>\<open>"Duplicate teams on different levels, but one of them can be deleted because it has no users"\<close>\<close>
  | HasUsers jsstring objid nat
      \<comment> \<open>\<open>f.name + " (" + f._id + ") has " + f.users.length + " users"\<close>\<close>
  | Migrating jsstring objid
      \<comment> \<open>\<open>"migrating " + teamToMigrate.name + " (" + teamToMigrate._id + ")"\<close>\<close>
  | DryRunNoOperations  \<comment> \<open>\<open>"dry run. no operations have been performed."\<close>\<close>
  | CodeChanged jsstring jsstring
      \<comment> \<open>\<open>teamToMigrate.name + " code has been changed to: " + teamToMigrate.code\<close>\<close>
  | Done  \<comment> \<open>\<open>"----- done"\<close>\<close>

text \<open>
  \<open>checkDups(dups)\<close> returns its boolean together with the lines it logged, in order. Both
  calls of \<open>getLowestLevel\<close> come before the first line is logged, so a throw leaves no
  output behind.
\<close>

definition checkDups :: "team list \<Rightarrow> error + (bool \<times> msg list)" where
  "checkDups dups =
     (let fa = js_index dups 0;
          fb = js_index dups 1
      in case getLowestLevel fa of
           Inl e \<Rightarrow> Inl e
         | Inr lowestA \<Rightarrow>
             (case getLowestLevel fb of
                Inl e \<Rightarrow> Inl e
              | Inr lowestB \<Rightarrow>
                  (case (fa, fb) of
                     (Some a, Some b) \<Rightarrow>
                       (if lowestA = lowestB then
                          (if length (users a) \<noteq> 0 \<and> length (users b) \<noteq> 0
                           then Inr (False, [ConsultCustomer (name a)])
                           else Inr (False,
                             [SameLevelDeletable,
                              HasUsers (name a) (team_id a) (length (users a)),
                              HasUsers (name b) (team_id b) (length (users b))]))
                        else
                          (if length (users a) \<noteq> 0 \<and> length (users b) \<noteq> 0
                           then Inr (True, [CanBeMigrated (name a)])
                           else Inr (False,
                             [DifferentLevelDeletable,
                              HasUsers (name a) (team_id a) (length (users a)),
                              HasUsers (name b) (team_id b) (length (users b))])))
                   | _ \<Rightarrow> Inl TypeError)))"

section \<open>The storage and main\<close>

text \<open>
  A document of the aggregation's result. The stage
  \<open>{"$group": {_id: "$code", count: {$sum: 1}}}\<close> gives every group the fields \<open>_id\<close> and
  \<open>count\<close> and no other; \<open>group_defaultTeam\<close> is what \<open>team.defaultTeam\<close> reads from such a
  document, \<open>None\<close> being \<open>undefined\<close>.
\<close>

record group =
  group_id :: jsstring
  count :: nat
  group_defaultTeam :: "bool option"

text \<open>
  What the run sees and leaves behind, in order: the lines logged, the command printed by
  \<open>printjson\<close>, and the calls made on \<open>db.teams\<close>.
\<close>

datatype event =
    Log msg
  | PrintJson objid team  \<comment> \<open>\<open>printjson({query: {_id: ...}, document: ...})\<close>\<close>
  | Aggregate  \<comment> \<open>\<open>db.teams.aggregate(...)\<close>\<close>
  | Find jsstring  \<comment> \<open>\<open>db.teams.find({defaultTeam: false, code: ...})\<close>\<close>
  | Update objid team  \<comment> \<open>\<open>db.teams.update({_id: ...}, document)\<close>\<close>

text \<open>
  The globals \<open>domain\<close> and \<open>dryrun\<close> (\<open>None\<close>: not passed on the command line), the name
  \<open>db.getName()\<close> answers, the collection \<open>db.teams\<close>, and the trace of events so far.
\<close>

record state =
  domain :: "jsstring option"
  dryrun :: "bool option"
  dbName :: jsstring
  teams :: "team list"
  trace :: "event list"

definition emit :: "event \<Rightarrow> state \<Rightarrow> state" where
  "emit e s = s\<lparr>trace := trace s @ [e]\<rparr>"

text \<open>
  \<open>db.teams.aggregate([{"$group": {_id: "$code", count: {$sum: 1}}}]).result\<close>: one group for
  each distinct code, with the number of documents that carry it. (MongoDB leaves the order
  of the groups open; the model lists them in the order \<open>remdups\<close> keeps the codes.)
\<close>

definition aggregate :: "team list \<Rightarrow> group list" where
  "aggregate ts =
     map (\<lambda>c. \<lparr>group_id = c, count = length (filter (\<lambda>t. code t = c) ts),
               group_defaultTeam = None\<rparr>)
       (remdups (map code ts))"

text \<open>\<open>db.teams.find({defaultTeam: false, code: c}).toArray()\<close>.\<close>

definition find_teams :: "jsstring \<Rightarrow> team list \<Rightarrow> team list" where
  "find_teams c ts = filter (\<lambda>t. defaultTeam t = False \<and> code t = c) ts"

text \<open>
  \<open>db.teams.update({_id: q}, document)\<close>: without \<open>multi\<close> the first document that matches
  the query is replaced by \<open>document\<close>.
\<close>

fun update_teams :: "objid \<Rightarrow> team \<Rightarrow> team list \<Rightarrow> team list" where
  "update_teams q document [] = []"
| "update_teams q document (t # ts) =
     (if team_id t = q then document # ts else t # update_teams q document ts)"

text \<open>
  The body of the second \<open>for\<close> loop of \<open>main\<close>, for one element of \<open>relevantResults\<close>.
  \<open>continue\<close> leaves the state as it is; a throw ends the body with the state reached.
\<close>

definition process_group :: "group \<Rightarrow> state \<Rightarrow> (error + unit) \<times> state" where
  "process_group team s =
     (if js_truthy (group_defaultTeam team) then (Inr (), s)
      else
        (let dups = find_teams (group_id team) (teams s);
             s1 = emit (Find (group_id team)) s
         in case checkDups dups of
              Inl e \<Rightarrow> (Inl e, s1)
            | Inr (ok, msgs) \<Rightarrow>
                (let s2 = s1\<lparr>trace := trace s1 @ map Log msgs\<rparr> in
                 if ok then
                   (case js_index dups 0 of
                      None \<Rightarrow> (Inl TypeError, s2)
                    | Some teamToMigrate \<Rightarrow>
                        (let s3 = emit (Log (Migrating (name teamToMigrate)
                                                (team_id teamToMigrate))) s2
                         in case createTeamCode (domain s3) teamToMigrate of
                              Inl e \<Rightarrow> (Inl e, s3)
                            | Inr newCode \<Rightarrow>
                                (let document = teamToMigrate\<lparr>code := newCode\<rparr>;
                                     query = team_id document
                                 in if js_truthy (dryrun s3) then
                                      (Inr (),
                                       emit (Log Done)
                                         (emit (Log DryRunNoOperations)
                                            (emit (PrintJson query document) s3)))
                                    else
                                      (Inr (),
                                       emit (Log Done)
                                         (emit (Log (CodeChanged (name document)
                                                       (code document)))
                                            (emit (Update query document)
                                               (s3\<lparr>teams :=
                                                  update_teams query document
                                                    (teams s3)\<rparr>)))))))
                 else (Inr (), emit (Log Done) s2))))"

text \<open>The second \<open>for\<close> loop: the groups in order, stopping at the first throw.\<close>

fun process_groups :: "group list \<Rightarrow> state \<Rightarrow> (error + unit) \<times> state" where
  "process_groups [] s = (Inr (), s)"
| "process_groups (team # rest) s =
     (case process_group team s of
        (Inl e, s') \<Rightarrow> (Inl e, s')
      | (Inr u, s') \<Rightarrow> process_groups rest s')"

text \<open>\<open>main()\<close>.\<close>

definition main :: "state \<Rightarrow> (error + unit) \<times> state" where
  "main s =
     (case domain s of
        None \<Rightarrow> (Inl DomainMustBeDefined, s)
      | Some d \<Rightarrow>
          (let s1 = (if dryrun s = None then s\<lparr>dryrun := Some True\<rparr> else s) in
           if dbName s1 \<noteq> js ''fh-aaa'' then (Inl MustRunOnFhAaa, s1)
           else
             (let s2 = emit (Log (UsingDomain d)) s1;
                  result = aggregate (teams s2);
                  s3 = emit Aggregate s2;
                  relevantResults = filter (\<lambda>r. count r > 1) result
              in if length relevantResults \<le> 0
                 then (Inr (), emit (Log NothingToDo) s3)
                 else process_groups relevantResults s3)))"

section \<open>Example documents\<close>

text \<open>
  A team named \<open>"Test Team"\<close> with three hierarchy levels; the longest labels are \<open>"abc"\<close>
  and \<open>"xyz"\<close>, and \<open>"abc"\<close> comes first.
\<close>

definition example_team :: team where
  "example_team = \<lparr>team_id = 1, name = js ''Test Team'', code = js ''X'', defaultTeam = False,
     business_objects = [(js ''a'', [js ''g0'']), (js ''abc'', [js ''g1'', js ''g2'']), (js ''xyz'', [])],
     users = []\<rparr>"

text \<open>
  The same team with a user, a second team under the same code on another level, and a
  third one; a state of the run over a given collection, with domain \<open>"acme"\<close> on the
  database \<open>fh-aaa\<close>; and the group the aggregation returns for the code \<open>"X"\<close>.
\<close>

definition staffed_team :: team where
  "staffed_team = \<lparr>team_id = 1, name = js ''Test Team'', code = js ''X'', defaultTeam = False,
     business_objects = [(js ''a'', [js ''g0'']), (js ''abc'', [js ''g1'', js ''g2'']), (js ''xyz'', [])],
     users = [js ''u1'']\<rparr>"

definition other_team :: team where
  "other_team = \<lparr>team_id = 2, name = js ''Other'', code = js ''X'', defaultTeam = False,
     business_objects = [(js ''ab'', [js ''g3''])], users = [js ''u2'']\<rparr>"

definition third_team :: team where
  "third_team = \<lparr>team_id = 3, name = js ''Third'', code = js ''X'', defaultTeam = False,
     business_objects = [(js ''abcd'', [js ''g4''])], users = [js ''u3'']\<rparr>"

definition run_state :: "bool option \<Rightarrow> team list \<Rightarrow> state" where
  "run_state dry ts = \<lparr>domain = Some (js ''acme''), dryrun = dry, dbName = js ''fh-aaa'',
     teams = ts, trace = []\<rparr>"

definition group_X :: "nat \<Rightarrow> group" where
  "group_X n = \<lparr>group_id = js ''X'', count = n, group_defaultTeam = None\<rparr>"

text \<open>
  Two teams on different levels that share a code which already has the new format.
\<close>

definition ops_team_a :: team where
  "ops_team_a = \<lparr>team_id = 1, name = js ''Ops'', code = js ''acme-g1-Ops'', defaultTeam = False,
     business_objects = [(js ''region'', [js ''g1''])], users = [js ''u1'']\<rparr>"

definition ops_team_b :: team where
  "ops_team_b = \<lparr>team_id = 2, name = js ''Ops'', code = js ''acme-g1-Ops'', defaultTeam = False,
     business_objects = [(js ''site'', [js ''g2''])], users = [js ''u2'']\<rparr>"

section \<open>Sorting the keys by descending length\<close>

lemma set_insert_cmp: "set (insert_cmp cmp x xs) = insert x (set xs)"
  by (induction xs) auto

lemma set_js_sort: "set (js_sort cmp xs) = set xs"
  unfolding js_sort_def by (induction xs) (auto simp: set_insert_cmp)

lemma sorted_insert_cmp:
  "sorted_wrt (\<lambda>a b. length b \<le> length a) xs \<Longrightarrow>
   sorted_wrt (\<lambda>a b. length b \<le> length a)
     (insert_cmp (\<lambda>a b. int (length b) - int (length a)) x xs)"
  by (induction xs) (auto simp: set_insert_cmp)

lemma sorted_js_sort:
  "sorted_wrt (\<lambda>a b. length b \<le> length a)
     (js_sort (\<lambda>a b. int (length b) - int (length a)) xs)"
  unfolding js_sort_def by (induction xs) (auto intro: sorted_insert_cmp)

lemma js_index_Cons_0: "js_index (x # xs) 0 = Some x"
  by (simp add: js_index_def)

lemma head_longest:
  assumes "xs \<noteq> []"
  shows "\<exists>l ls. js_sort (\<lambda>a b. int (length b) - int (length a)) xs = l # ls \<and>
           l \<in> set xs \<and> (\<forall>k \<in> set xs. length k \<le> length l)"
proof -
  let ?ys = "js_sort (\<lambda>a b. int (length b) - int (length a)) xs"
  have s: "set ?ys = set xs" by (rule set_js_sort)
  with assms have "?ys \<noteq> []" by auto
  then obtain l ls where ys: "?ys = l # ls" by (cases ?ys) auto
  have "sorted_wrt (\<lambda>a b. length b \<le> length a) (l # ls)"
    using sorted_js_sort [of xs] ys by simp
  then have "\<forall>k \<in> set ls. length k \<le> length l" by simp
  moreover have "set xs = insert l (set ls)" using s ys by simp
  ultimately show ?thesis using ys by auto
qed

lemma getLowestLevel_nonempty:
  assumes "business_objects t \<noteq> []"
  shows "\<exists>l. getLowestLevel (Some t) = Inr (Some l) \<and> l \<in> fst ` set (business_objects t)"
proof -
  from assms have "map fst (business_objects t) \<noteq> []" by simp
  from head_longest [OF this] obtain l ls where
    "js_sort (\<lambda>a b. int (length b) - int (length a)) (map fst (business_objects t)) = l # ls"
    "l \<in> set (map fst (business_objects t))"
    by blast
  then show ?thesis
    by (auto simp: getLowestLevel_def Let_def js_index_Cons_0)
qed

lemma map_of_key_Some: "l \<in> fst ` set kvs \<Longrightarrow> \<exists>v. map_of kvs l = Some v"
  by (metis domD dom_map_of_conv_image_fst)

lemma underscore_not_whitespace: "\<not> is_whitespace 95"
  by (simp add: is_whitespace_def)

lemma replace_whitespace_free: "c \<in> set (replace_whitespace s) \<Longrightarrow> \<not> is_whitespace c"
  by (auto simp: replace_whitespace_def underscore_not_whitespace)

section \<open>checkDups and the loop body, case by case\<close>

lemma getLowestLevel_Some:
  "getLowestLevel (Some t) =
     Inr (js_index (js_sort (\<lambda>a b. int (length b) - int (length a))
                      (map fst (business_objects t))) 0)"
  by (simp add: getLowestLevel_def)

lemma getLowestLevel_None: "getLowestLevel None = Inl TypeError"
  by (simp add: getLowestLevel_def)

lemma checkDups_two:
  "checkDups (fa # fb # others) =
     (if getLowestLevel (Some fa) = getLowestLevel (Some fb) then
        (if users fa \<noteq> [] \<and> users fb \<noteq> []
         then Inr (False, [ConsultCustomer (name fa)])
         else Inr (False,
           [SameLevelDeletable,
            HasUsers (name fa) (team_id fa) (length (users fa)),
            HasUsers (name fb) (team_id fb) (length (users fb))]))
      else
        (if users fa \<noteq> [] \<and> users fb \<noteq> []
         then Inr (True, [CanBeMigrated (name fa)])
         else Inr (False,
           [DifferentLevelDeletable,
            HasUsers (name fa) (team_id fa) (length (users fa)),
            HasUsers (name fb) (team_id fb) (length (users fb))])))"
  by (simp add: checkDups_def js_index_def getLowestLevel_Some)

lemma checkDups_short: "length dups < 2 \<Longrightarrow> checkDups dups = Inl TypeError"
proof (cases dups)
  case Nil
  then show ?thesis by (simp add: checkDups_def js_index_def getLowestLevel_None)
next
  case (Cons a as)
  assume "length dups < 2"
  with Cons have "as = []" by simp
  with Cons show ?thesis
    by (simp add: checkDups_def js_index_def getLowestLevel_None getLowestLevel_Some)
qed

lemma checkDups_eligible:
  "\<exists>ms. checkDups (fa # fb # others) =
      Inr (getLowestLevel (Some fa) \<noteq> getLowestLevel (Some fb) \<and>
           users fa \<noteq> [] \<and> users fb \<noteq> [], ms)"
  by (simp add: checkDups_two)

lemma process_group_not_eligible:
  assumes "\<not> js_truthy (group_defaultTeam g)"
    and "checkDups (find_teams (group_id g) (teams s)) = Inr (False, ms)"
  shows "process_group g s =
     (Inr (), s\<lparr>trace := trace s @ Find (group_id g) # map Log ms @ [Log Done]\<rparr>)"
  using assms by (simp add: process_group_def Let_def emit_def)

lemma process_group_skip:
  "js_truthy (group_defaultTeam g) \<Longrightarrow> process_group g s = (Inr (), s)"
  by (simp add: process_group_def)

lemma process_group_throw:
  assumes "\<not> js_truthy (group_defaultTeam g)"
    and "checkDups (find_teams (group_id g) (teams s)) = Inl e"
  shows "process_group g s = (Inl e, emit (Find (group_id g)) s)"
  using assms by (simp add: process_group_def Let_def)

lemma process_group_eligible:
  assumes "\<not> js_truthy (group_defaultTeam g)"
    and "find_teams (group_id g) (teams s) = fa # others"
    and "checkDups (fa # others) = Inr (True, ms)"
    and "createTeamCode (domain s) fa = Inr c"
  shows "process_group g s =
     (Inr (),
      if js_truthy (dryrun s) then
        s\<lparr>trace := trace s @ Find (group_id g) # map Log ms @
             [Log (Migrating (name fa) (team_id fa)),
              PrintJson (team_id fa) (fa\<lparr>code := c\<rparr>),
              Log DryRunNoOperations, Log Done]\<rparr>
      else
        s\<lparr>teams := update_teams (team_id fa) (fa\<lparr>code := c\<rparr>) (teams s),
          trace := trace s @ Find (group_id g) # map Log ms @
             [Log (Migrating (name fa) (team_id fa)),
              Update (team_id fa) (fa\<lparr>code := c\<rparr>),
              Log (CodeChanged (name fa) c), Log Done]\<rparr>)"
  using assms by (simp add: process_group_def Let_def emit_def js_index_def)

lemma process_group_code_throws:
  assumes "\<not> js_truthy (group_defaultTeam g)"
    and "find_teams (group_id g) (teams s) = fa # others"
    and "checkDups (fa # others) = Inr (True, ms)"
    and "createTeamCode (domain s) fa = Inl e"
  shows "process_group g s =
     (Inl e, s\<lparr>trace := trace s @ Find (group_id g) # map Log ms @
                  [Log (Migrating (name fa) (team_id fa))]\<rparr>)"
  using assms by (simp add: process_group_def Let_def emit_def js_index_def)

lemma checkDups_ignores_rest: "checkDups (fa # fb # others) = checkDups [fa, fb]"
  by (simp add: checkDups_two)

lemma createTeamCode_nonempty: "createTeamCode dmn t = Inr c \<Longrightarrow> c \<noteq> []"
  by (auto simp: createTeamCode_def Let_def replace_whitespace_def js_def
      split: sum.splits option.splits)

section \<open>The run in simulation mode\<close>

lemma process_group_dry:
  assumes "js_truthy (dryrun s)"
  shows "\<exists>r evs. process_group g s = (r, s\<lparr>trace := trace s @ evs\<rparr>) \<and>
           (\<forall>q document. Update q document \<notin> set evs)"
proof (cases "js_truthy (group_defaultTeam g)")
  case True
  then have "process_group g s = (Inr (), s\<lparr>trace := trace s @ []\<rparr>)"
    by (simp add: process_group_skip)
  then show ?thesis by (intro exI [of _ "[]"] exI [of _ "Inr ()"]) simp
next
  case nd: False
  let ?dups = "find_teams (group_id g) (teams s)"
  show ?thesis
  proof (cases "checkDups ?dups")
    case (Inl e)
    with nd have "process_group g s = (Inl e, s\<lparr>trace := trace s @ [Find (group_id g)]\<rparr>)"
      by (simp add: process_group_throw emit_def)
    then show ?thesis
      by (intro exI [of _ "[Find (group_id g)]"] exI [of _ "Inl e"]) simp
  next
    case (Inr p)
    obtain ok ms where p: "p = (ok, ms)" by (cases p)
    show ?thesis
    proof (cases ok)
      case False
      with nd Inr p have "process_group g s =
         (Inr (), s\<lparr>trace := trace s @ Find (group_id g) # map Log ms @ [Log Done]\<rparr>)"
        by (simp add: process_group_not_eligible)
      then show ?thesis
        by (intro exI [of _ "Find (group_id g) # map Log ms @ [Log Done]"] exI [of _ "Inr ()"])
          auto
    next
      case True
      show ?thesis
      proof (cases ?dups)
        case Nil
        with Inr show ?thesis by (simp add: checkDups_short)
      next
        case (Cons fa others)
        show ?thesis
        proof (cases "createTeamCode (domain s) fa")
          case (Inl e)
          with nd Inr p True Cons have "process_group g s =
            (Inl e, s\<lparr>trace := trace s @ Find (group_id g) # map Log ms @
               [Log (Migrating (name fa) (team_id fa))]\<rparr>)"
            by (simp add: process_group_def Let_def emit_def js_index_def)
          then show ?thesis
            by (intro exI [of _ "Find (group_id g) # map Log ms @
               [Log (Migrating (name fa) (team_id fa))]"] exI [of _ "Inl e"]) auto
        next
          case c: (Inr c)
          from nd Cons Inr p True c assms have "process_group g s =
            (Inr (), s\<lparr>trace := trace s @ Find (group_id g) # map Log ms @
             [Log (Migrating (name fa) (team_id fa)),
              PrintJson (team_id fa) (fa\<lparr>code := c\<rparr>),
              Log DryRunNoOperations, Log Done]\<rparr>)"
            by (simp add: process_group_eligible)
          then show ?thesis
            by (intro exI [of _ "Find (group_id g) # map Log ms @
             [Log (Migrating (name fa) (team_id fa)),
              PrintJson (team_id fa) (fa\<lparr>code := c\<rparr>),
              Log DryRunNoOperations, Log Done]"] exI [of _ "Inr ()"]) auto
        qed
      qed
    qed
  qed
qed

lemma process_groups_dry:
  assumes "js_truthy (dryrun s)"
  shows "\<exists>r evs. process_groups gs s = (r, s\<lparr>trace := trace s @ evs\<rparr>) \<and>
           (\<forall>q document. Update q document \<notin> set evs)"
  using assms
proof (induction gs arbitrary: s)
  case Nil
  have "process_groups [] s = (Inr (), s\<lparr>trace := trace s @ []\<rparr>)" by simp
  then show ?case by (intro exI [of _ "[]"] exI [of _ "Inr ()"]) simp
next
  case (Cons g gs)
  from process_group_dry [OF Cons.prems, of g] obtain r evs where
    step: "process_group g s = (r, s\<lparr>trace := trace s @ evs\<rparr>)"
    and nu: "\<forall>q document. Update q document \<notin> set evs"
    by blast
  show ?case
  proof (cases r)
    case (Inl e)
    with step have "process_groups (g # gs) s = (Inl e, s\<lparr>trace := trace s @ evs\<rparr>)"
      by simp
    with nu show ?thesis by blast
  next
    case (Inr u)
    let ?s1 = "s\<lparr>trace := trace s @ evs\<rparr>"
    from Cons.prems have "js_truthy (dryrun ?s1)" by simp
    from Cons.IH [OF this] obtain r' evs' where
      rest: "process_groups gs ?s1 = (r', ?s1\<lparr>trace := trace ?s1 @ evs'\<rparr>)"
      and nu': "\<forall>q document. Update q document \<notin> set evs'"
      by blast
    from step Inr rest have
      "process_groups (g # gs) s = (r', s\<lparr>trace := trace s @ (evs @ evs')\<rparr>)"
      by simp
    moreover from nu nu' have "\<forall>q document. Update q document \<notin> set (evs @ evs')"
      by simp
    ultimately show ?thesis by blast
  qed
qed

lemma main_default_dryrun:
  "dryrun s = None \<Longrightarrow> domain s \<noteq> None \<Longrightarrow> main s = main (s\<lparr>dryrun := Some True\<rparr>)"
  by (auto simp: main_def Let_def emit_def split: option.splits)

lemma main_dry:
  assumes "dryrun s \<noteq> Some False"
  shows "teams (snd (main s)) = teams s \<and>
     (\<exists>evs. trace (snd (main s)) = trace s @ evs \<and>
        (\<forall>q document. Update q document \<notin> set evs))"
proof (cases "domain s")
  case None
  then show ?thesis by (simp add: main_def)
next
  case (Some d)
  define s1 where "s1 = (if dryrun s = None then s\<lparr>dryrun := Some True\<rparr> else s)"
  have dry: "js_truthy (dryrun s1)"
    using assms by (cases "dryrun s") (auto simp: s1_def js_truthy_def)
  have same: "teams s1 = teams s" "trace s1 = trace s"
    by (simp_all add: s1_def)
  show ?thesis
  proof (cases "dbName s1 \<noteq> js ''fh-aaa''")
    case True
    with Some have "main s = (Inl MustRunOnFhAaa, s1)"
      by (simp add: main_def s1_def Let_def)
    with same show ?thesis by simp
  next
    case False
    define s3 where "s3 = s1\<lparr>trace := trace s1 @ [Log (UsingDomain d), Aggregate]\<rparr>"
    define rel where "rel = filter (\<lambda>r. count r > 1) (aggregate (teams s1))"
    have dry3: "js_truthy (dryrun s3)" using dry by (simp add: s3_def)
    have m: "main s = (if length rel \<le> 0 then (Inr (), emit (Log NothingToDo) s3)
                       else process_groups rel s3)"
      using Some False by (simp add: main_def Let_def s1_def s3_def rel_def emit_def)
    show ?thesis
    proof (cases "length rel \<le> 0")
      case True
      with m have "main s = (Inr (), s3\<lparr>trace := trace s3 @ [Log NothingToDo]\<rparr>)"
        by (simp add: emit_def)
      then show ?thesis
        using same by (simp add: s3_def)
    next
      case nz: False
      from process_groups_dry [OF dry3, of rel] obtain r evs where
        "process_groups rel s3 = (r, s3\<lparr>trace := trace s3 @ evs\<rparr>)"
        and nu: "\<forall>q document. Update q document \<notin> set evs"
        by blast
      with m nz have ms: "main s = (r, s3\<lparr>trace := trace s3 @ evs\<rparr>)" by simp
      have "trace (snd (main s)) = trace s @ ([Log (UsingDomain d), Aggregate] @ evs)"
        using ms same by (simp add: s3_def)
      moreover have "\<forall>q document. Update q document \<notin> set ([Log (UsingDomain d), Aggregate] @ evs)"
        using nu by simp
      moreover have "teams (snd (main s)) = teams s"
        using ms same by (simp add: s3_def)
      ultimately show ?thesis by blast
    qed
  qed
qed

lemma process_group_dryrun: "dryrun (snd (process_group g s)) = dryrun s"
  by (simp add: process_group_def Let_def emit_def split: sum.splits option.splits prod.splits)

lemma process_groups_dryrun: "dryrun (snd (process_groups gs s)) = dryrun s"
proof (induction gs arbitrary: s)
  case Nil
  show ?case by simp
next
  case (Cons g gs)
  obtain r s1 where step: "process_group g s = (r, s1)" by (cases "process_group g s")
  then have "dryrun s1 = dryrun s" using process_group_dryrun [of g s] by simp
  with step Cons.IH [of s1] show ?case by (cases r) simp_all
qed

lemma main_dryrun_kept:
  "domain s \<noteq> None \<Longrightarrow>
   dryrun (snd (main s)) = Some (case dryrun s of None \<Rightarrow> True | Some b \<Rightarrow> b)"
  by (auto simp: main_def Let_def emit_def process_groups_dryrun split: option.splits)

section \<open>Evaluating the examples\<close>

lemmas eval_defs =
  main_def Let_def aggregate_def emit_def process_group_def find_teams_def checkDups_def
  getLowestLevel_def createTeamCode_def js_sort_def js_index_def js_truthy_def
  replace_whitespace_def is_whitespace_def js_def

section \<open>Claims\<close>

text \<open>
  C1. For a pair of duplicates \<open>checkDups\<close> answers true exactly when the two lowest levels
  differ and both teams have at least one user. In every other case it answers false, and the
  loop body then only reads the group and logs: no code is computed and nothing is written.
\<close>

theorem checkDups_eligible_iff:
  "\<exists>ms. checkDups [fa, fb] =
      Inr (getLowestLevel (Some fa) \<noteq> getLowestLevel (Some fb) \<and>
           users fa \<noteq> [] \<and> users fb \<noteq> [], ms) \<and>
    (\<not> js_truthy (group_defaultTeam g) \<and>
     find_teams (group_id g) (teams s) = [fa, fb] \<and>
     \<not> (getLowestLevel (Some fa) \<noteq> getLowestLevel (Some fb) \<and>
        users fa \<noteq> [] \<and> users fb \<noteq> []) \<longrightarrow>
     process_group g s =
       (Inr (), s\<lparr>trace := trace s @ Find (group_id g) # map Log ms @ [Log Done]\<rparr>))"
proof -
  from checkDups_eligible [of fa fb "[]"] obtain ms where
    ms: "checkDups [fa, fb] =
      Inr (getLowestLevel (Some fa) \<noteq> getLowestLevel (Some fb) \<and>
           users fa \<noteq> [] \<and> users fb \<noteq> [], ms)"
    by blast
  have "process_group g s =
       (Inr (), s\<lparr>trace := trace s @ Find (group_id g) # map Log ms @ [Log Done]\<rparr>)"
    if "\<not> js_truthy (group_defaultTeam g)"
      and "find_teams (group_id g) (teams s) = [fa, fb]"
      and "\<not> (getLowestLevel (Some fa) \<noteq> getLowestLevel (Some fb) \<and>
        users fa \<noteq> [] \<and> users fb \<noteq> [])"
    using that ms by (intro process_group_not_eligible) simp_all
  with ms show ?thesis by blast
qed

theorem checkDups_eligible_iff_witness:
  "\<not> js_truthy (group_defaultTeam (group_X 2)) \<and>
   find_teams (group_id (group_X 2)) (teams (run_state (Some False) [example_team, other_team]))
     = [example_team, other_team] \<and>
   users example_team = [] \<and>
   checkDups [example_team, other_team] =
     Inr (False, [DifferentLevelDeletable, HasUsers (js ''Test Team'') 1 0,
                  HasUsers (js ''Other'') 2 1]) \<and>
   process_group (group_X 2) (run_state (Some False) [example_team, other_team]) =
     (Inr (), (run_state (Some False) [example_team, other_team])
        \<lparr>trace := [Find (js ''X''), Log DifferentLevelDeletable,
                   Log (HasUsers (js ''Test Team'') 1 0), Log (HasUsers (js ''Other'') 2 1),
                   Log Done]\<rparr>)"
proof -
  let ?s = "run_state (Some False) [example_team, other_team]"
  have a: "\<not> js_truthy (group_defaultTeam (group_X 2))"
    by (simp add: group_X_def js_truthy_def)
  have b: "find_teams (group_id (group_X 2)) (teams ?s) = [example_team, other_team]"
    by (simp add: group_X_def run_state_def find_teams_def example_team_def other_team_def)
  have c: "users example_team = []"
    by (simp add: example_team_def)
  have d: "checkDups [example_team, other_team] =
     Inr (False, [DifferentLevelDeletable, HasUsers (js ''Test Team'') 1 0,
                  HasUsers (js ''Other'') 2 1])"
    by (simp add: checkDups_def getLowestLevel_def js_sort_def js_index_def
        example_team_def other_team_def js_def)
  from checkDups_eligible_iff [of example_team other_team "group_X 2" ?s] a b c d
  have "process_group (group_X 2) ?s =
     (Inr (), ?s\<lparr>trace := trace ?s @ Find (group_id (group_X 2)) #
        map Log [DifferentLevelDeletable, HasUsers (js ''Test Team'') 1 0,
                 HasUsers (js ''Other'') 2 1] @ [Log Done]\<rparr>)"
    by auto
  then have "process_group (group_X 2) ?s =
     (Inr (), ?s\<lparr>trace := [Find (js ''X''), Log DifferentLevelDeletable,
                   Log (HasUsers (js ''Test Team'') 1 0), Log (HasUsers (js ''Other'') 2 1),
                   Log Done]\<rparr>)"
    by (simp add: group_X_def run_state_def)
  with a b c d show ?thesis by blast
qed

text \<open>
  C2. For every team and every domain, a code that \<open>createTeamCode\<close> returns is the domain,
  the dash-joined identifiers stored under the team's lowest level and the team's name,
  joined by \<open>"-"\<close>, with every whitespace code unit replaced by \<open>"_"\<close>, and it holds no
  whitespace; a code is returned for every team that has at least one hierarchy level; and
  for domain \<open>"acme"\<close>, name \<open>"Test Team"\<close> and lowest-level identifiers \<open>["g1", "g2"]\<close> the
  code is \<open>"acme-g1-g2-Test_Team"\<close>. (The code is a function of the domain and the team: the
  computation is deterministic.)
\<close>

theorem createTeamCode_spec:
  "(\<forall>c. createTeamCode (Some d) t = Inr c \<longrightarrow>
      (\<exists>l bos. getLowestLevel (Some t) = Inr (Some l) \<and>
         map_of (business_objects t) l = Some bos \<and>
         c = map (\<lambda>x. if is_whitespace x then 95 else x)
               (d @ js ''-'' @ join (js ''-'') bos @ js ''-'' @ name t)) \<and>
      (\<forall>x \<in> set c. \<not> is_whitespace x)) \<and>
   (business_objects t \<noteq> [] \<longrightarrow> (\<exists>c. createTeamCode (Some d) t = Inr c)) \<and>
   (getLowestLevel (Some t) = Inr (Some l') \<and>
    map_of (business_objects t) l' = Some [js ''g1'', js ''g2''] \<and>
    name t = js ''Test Team'' \<longrightarrow>
      createTeamCode (Some (js ''acme'')) t = Inr (js ''acme-g1-g2-Test_Team''))"
proof (intro conjI impI allI)
  fix c assume c: "createTeamCode (Some d) t = Inr c"
  obtain lowest where lowest: "getLowestLevel (Some t) = Inr lowest"
    by (simp add: getLowestLevel_Some)
  have "lowest \<noteq> None"
  proof
    assume none: "lowest = None"
    have "business_objects t = []"
    proof (rule ccontr)
      assume "business_objects t \<noteq> []"
      from getLowestLevel_nonempty [OF this] lowest none show False by auto
    qed
    with c lowest none show False by (simp add: createTeamCode_def)
  qed
  then obtain l where l: "lowest = Some l" by auto
  from c lowest l obtain bos where bos: "map_of (business_objects t) l = Some bos"
    by (auto simp: createTeamCode_def split: option.splits)
  from c lowest l bos have
    "c = map (\<lambda>x. if is_whitespace x then 95 else x)
           (d @ js ''-'' @ join (js ''-'') bos @ js ''-'' @ name t)"
    by (simp add: createTeamCode_def replace_whitespace_def)
  with lowest l bos show "\<exists>l bos. getLowestLevel (Some t) = Inr (Some l) \<and>
         map_of (business_objects t) l = Some bos \<and>
         c = map (\<lambda>x. if is_whitespace x then 95 else x)
               (d @ js ''-'' @ join (js ''-'') bos @ js ''-'' @ name t)"
    by blast
  from c obtain s where "c = replace_whitespace s"
    by (auto simp: createTeamCode_def Let_def split: sum.splits option.splits)
  then show "\<forall>x \<in> set c. \<not> is_whitespace x"
    using replace_whitespace_free by blast
next
  assume ne: "business_objects t \<noteq> []"
  from getLowestLevel_nonempty [OF ne] obtain l where
    l: "getLowestLevel (Some t) = Inr (Some l)" "l \<in> fst ` set (business_objects t)"
    by blast
  from map_of_key_Some [OF l(2)] obtain bos where
    "map_of (business_objects t) l = Some bos" by blast
  with l(1) show "\<exists>c. createTeamCode (Some d) t = Inr c"
    by (simp add: createTeamCode_def)
next
  assume "getLowestLevel (Some t) = Inr (Some l') \<and>
    map_of (business_objects t) l' = Some [js ''g1'', js ''g2''] \<and>
    name t = js ''Test Team''"
  then show "createTeamCode (Some (js ''acme'')) t = Inr (js ''acme-g1-g2-Test_Team'')"
    by (simp add: createTeamCode_def replace_whitespace_def is_whitespace_def js_def)
qed

theorem createTeamCode_spec_witness:
  "business_objects example_team \<noteq> [] \<and>
   getLowestLevel (Some example_team) = Inr (Some (js ''abc'')) \<and>
   map_of (business_objects example_team) (js ''abc'') = Some [js ''g1'', js ''g2''] \<and>
   name example_team = js ''Test Team'' \<and>
   createTeamCode (Some (js ''acme'')) example_team = Inr (js ''acme-g1-g2-Test_Team'')"
proof -
  have a: "getLowestLevel (Some example_team) = Inr (Some (js ''abc''))"
    by (simp add: example_team_def getLowestLevel_def js_sort_def js_index_def js_def)
  have b: "map_of (business_objects example_team) (js ''abc'') = Some [js ''g1'', js ''g2'']"
    by (simp add: example_team_def js_def)
  have c: "name example_team = js ''Test Team''"
    by (simp add: example_team_def)
  have d: "business_objects example_team \<noteq> []"
    by (simp add: example_team_def)
  from createTeamCode_spec [where t = example_team and d = "js ''acme''" and l' = "js ''abc''"] a b c d
  show ?thesis by blast
qed

text \<open>
  C3 (as amended). For a group whose first two records are on different lowest levels and
  both have users, and whose first record has at least one hierarchy level, the loop body
  selects the first record alone and computes for it a new code that is not empty; in
  simulation mode the update command is printed, otherwise it is issued for that record.
  The new code is not compared with the old one.
\<close>

theorem migration_selects_first:
  assumes "\<not> js_truthy (group_defaultTeam g)"
    and "find_teams (group_id g) (teams s) = fa # fb # others"
    and "getLowestLevel (Some fa) \<noteq> getLowestLevel (Some fb)"
    and "users fa \<noteq> []" and "users fb \<noteq> []"
    and "business_objects fa \<noteq> []"
    and "domain s = Some d"
  shows "\<exists>c. createTeamCode (Some d) fa = Inr c \<and> c \<noteq> [] \<and>
           process_group g s =
             (Inr (),
              if js_truthy (dryrun s) then
                s\<lparr>trace := trace s @
                     [Find (group_id g), Log (CanBeMigrated (name fa)),
                      Log (Migrating (name fa) (team_id fa)),
                      PrintJson (team_id fa) (fa\<lparr>code := c\<rparr>),
                      Log DryRunNoOperations, Log Done]\<rparr>
              else
                s\<lparr>teams := update_teams (team_id fa) (fa\<lparr>code := c\<rparr>) (teams s),
                  trace := trace s @
                     [Find (group_id g), Log (CanBeMigrated (name fa)),
                      Log (Migrating (name fa) (team_id fa)),
                      Update (team_id fa) (fa\<lparr>code := c\<rparr>),
                      Log (CodeChanged (name fa) c), Log Done]\<rparr>)"
proof -
  from getLowestLevel_nonempty [OF assms(6)] obtain l where
    l: "getLowestLevel (Some fa) = Inr (Some l)" "l \<in> fst ` set (business_objects fa)"
    by blast
  from map_of_key_Some [OF l(2)] obtain bos where
    "map_of (business_objects fa) l = Some bos" by blast
  with l(1) obtain c where c: "createTeamCode (Some d) fa = Inr c"
    by (simp add: createTeamCode_def)
  then have ne: "c \<noteq> []" by (rule createTeamCode_nonempty)
  have cd: "checkDups (fa # fb # others) = Inr (True, [CanBeMigrated (name fa)])"
    using assms(3-5) by (simp add: checkDups_two)
  from c assms(7) have c': "createTeamCode (domain s) fa = Inr c" by simp
  from process_group_eligible [OF assms(1) assms(2) cd c']
  have "process_group g s =
             (Inr (),
              if js_truthy (dryrun s) then
                s\<lparr>trace := trace s @
                     [Find (group_id g), Log (CanBeMigrated (name fa)),
                      Log (Migrating (name fa) (team_id fa)),
                      PrintJson (team_id fa) (fa\<lparr>code := c\<rparr>),
                      Log DryRunNoOperations, Log Done]\<rparr>
              else
                s\<lparr>teams := update_teams (team_id fa) (fa\<lparr>code := c\<rparr>) (teams s),
                  trace := trace s @
                     [Find (group_id g), Log (CanBeMigrated (name fa)),
                      Log (Migrating (name fa) (team_id fa)),
                      Update (team_id fa) (fa\<lparr>code := c\<rparr>),
                      Log (CodeChanged (name fa) c), Log Done]\<rparr>)"
    by simp
  with c ne show ?thesis by blast
qed

theorem migration_selects_first_witness:
  "\<not> js_truthy (group_defaultTeam (group_X 2)) \<and>
   find_teams (group_id (group_X 2)) (teams (run_state (Some False) [staffed_team, other_team]))
     = [staffed_team, other_team] \<and>
   getLowestLevel (Some staffed_team) \<noteq> getLowestLevel (Some other_team) \<and>
   users staffed_team \<noteq> [] \<and> users other_team \<noteq> [] \<and>
   business_objects staffed_team \<noteq> [] \<and>
   domain (run_state (Some False) [staffed_team, other_team]) = Some (js ''acme'') \<and>
   process_group (group_X 2) (run_state (Some False) [staffed_team, other_team]) =
     (Inr (), (run_state (Some False) [staffed_team, other_team])
        \<lparr>teams := [staffed_team\<lparr>code := js ''acme-g1-g2-Test_Team''\<rparr>, other_team],
         trace := [Find (js ''X''), Log (CanBeMigrated (js ''Test Team'')),
                   Log (Migrating (js ''Test Team'') 1),
                   Update 1 (staffed_team\<lparr>code := js ''acme-g1-g2-Test_Team''\<rparr>),
                   Log (CodeChanged (js ''Test Team'') (js ''acme-g1-g2-Test_Team'')),
                   Log Done]\<rparr>)"
proof -
  let ?s = "run_state (Some False) [staffed_team, other_team]"
  have h1: "\<not> js_truthy (group_defaultTeam (group_X 2))"
    by (simp add: group_X_def js_truthy_def)
  have h2: "find_teams (group_id (group_X 2)) (teams ?s) = [staffed_team, other_team]"
    by (simp add: group_X_def run_state_def find_teams_def staffed_team_def other_team_def)
  have h3: "getLowestLevel (Some staffed_team) \<noteq> getLowestLevel (Some other_team)"
    by (simp add: getLowestLevel_def js_sort_def js_index_def staffed_team_def
        other_team_def js_def)
  have h4: "users staffed_team \<noteq> []" by (simp add: staffed_team_def)
  have h5: "users other_team \<noteq> []" by (simp add: other_team_def)
  have h6: "business_objects staffed_team \<noteq> []" by (simp add: staffed_team_def)
  have h7: "domain ?s = Some (js ''acme'')" by (simp add: run_state_def)
  have v: "createTeamCode (Some (js ''acme'')) staffed_team = Inr (js ''acme-g1-g2-Test_Team'')"
    by (simp add: staffed_team_def createTeamCode_def getLowestLevel_def js_sort_def
        js_index_def js_def replace_whitespace_def is_whitespace_def)
  have nd: "\<not> js_truthy (dryrun ?s)" by (simp add: run_state_def js_truthy_def)
  from migration_selects_first [OF h1 h2 h3 h4 h5 h6 h7] v nd
  have "process_group (group_X 2) ?s =
     (Inr (), ?s\<lparr>teams := update_teams (team_id staffed_team)
                   (staffed_team\<lparr>code := js ''acme-g1-g2-Test_Team''\<rparr>) (teams ?s),
         trace := trace ?s @
                  [Find (group_id (group_X 2)), Log (CanBeMigrated (name staffed_team)),
                   Log (Migrating (name staffed_team) (team_id staffed_team)),
                   Update (team_id staffed_team) (staffed_team\<lparr>code := js ''acme-g1-g2-Test_Team''\<rparr>),
                   Log (CodeChanged (name staffed_team) (js ''acme-g1-g2-Test_Team'')),
                   Log Done]\<rparr>)"
    by auto
  moreover have "team_id staffed_team = 1" "name staffed_team = js ''Test Team''"
    by (simp_all add: staffed_team_def)
  moreover have "teams ?s = [staffed_team, other_team]" "trace ?s = []"
    "group_id (group_X 2) = js ''X''"
    by (simp_all add: run_state_def group_X_def)
  ultimately have "process_group (group_X 2) ?s =
     (Inr (), ?s
        \<lparr>teams := [staffed_team\<lparr>code := js ''acme-g1-g2-Test_Team''\<rparr>, other_team],
         trace := [Find (js ''X''), Log (CanBeMigrated (js ''Test Team'')),
                   Log (Migrating (js ''Test Team'') 1),
                   Update 1 (staffed_team\<lparr>code := js ''acme-g1-g2-Test_Team''\<rparr>),
                   Log (CodeChanged (js ''Test Team'') (js ''acme-g1-g2-Test_Team'')),
                   Log Done]\<rparr>)"
    by simp
  with h1 h2 h3 h4 h5 h6 h7 show ?thesis by blast
qed

text \<open>
  The claim as stated asks for a new code distinct from the original. Two teams on
  different levels, both with users, whose shared code already is \<open>"acme-g1-Ops"\<close>: the code
  computed for the first is \<open>"acme-g1-Ops"\<close> again, and the update writes the document back
  unchanged.
\<close>

theorem new_code_equals_original_counterexample:
  "find_teams (js ''acme-g1-Ops'') [ops_team_a, ops_team_b] = [ops_team_a, ops_team_b] \<and>
   getLowestLevel (Some ops_team_a) = Inr (Some (js ''region'')) \<and>
   getLowestLevel (Some ops_team_b) = Inr (Some (js ''site'')) \<and>
   users ops_team_a \<noteq> [] \<and> users ops_team_b \<noteq> [] \<and>
   code ops_team_a = js ''acme-g1-Ops'' \<and>
   createTeamCode (Some (js ''acme'')) ops_team_a = Inr (js ''acme-g1-Ops'') \<and>
   main (run_state (Some False) [ops_team_a, ops_team_b]) =
     (Inr (), (run_state (Some False) [ops_team_a, ops_team_b])
        \<lparr>trace := [Log (UsingDomain (js ''acme'')), Aggregate, Find (js ''acme-g1-Ops''),
                   Log (CanBeMigrated (js ''Ops'')), Log (Migrating (js ''Ops'') 1),
                   Update 1 ops_team_a,
                   Log (CodeChanged (js ''Ops'') (js ''acme-g1-Ops'')), Log Done]\<rparr>)"
  by (simp add: eval_defs run_state_def ops_team_a_def ops_team_b_def)

text \<open>
  C4 (as amended). For a group whose first two fetched records are on the same lowest level,
  whatever their users, and for a group where one of the first two fetched records has no
  user, the loop body ends normally, leaves the collection as it was and issues no update.
\<close>

theorem no_update_when_not_eligible:
  assumes "find_teams (group_id g) (teams s) = fa # fb # others"
    and "getLowestLevel (Some fa) = getLowestLevel (Some fb) \<or> users fa = [] \<or> users fb = []"
  shows "\<exists>evs. process_group g s = (Inr (), s\<lparr>trace := trace s @ evs\<rparr>) \<and>
           teams (snd (process_group g s)) = teams s \<and>
           (\<forall>q document. Update q document \<notin> set evs)"
proof (cases "js_truthy (group_defaultTeam g)")
  case True
  then have "process_group g s = (Inr (), s\<lparr>trace := trace s @ []\<rparr>)"
    by (simp add: process_group_skip)
  then show ?thesis by (intro exI [of _ "[]"]) simp
next
  case False
  from assms(2) have "\<exists>ms. checkDups (fa # fb # others) = Inr (False, ms)"
    by (auto simp: checkDups_two)
  then obtain ms where ms: "checkDups (fa # fb # others) = Inr (False, ms)" ..
  with False assms(1) have
    "process_group g s =
       (Inr (), s\<lparr>trace := trace s @ Find (group_id g) # map Log ms @ [Log Done]\<rparr>)"
    by (intro process_group_not_eligible) simp_all
  then show ?thesis
    by (intro exI [of _ "Find (group_id g) # map Log ms @ [Log Done]"]) auto
qed

theorem no_update_when_not_eligible_witness:
  "find_teams (group_id (group_X 2))
     (teams (run_state (Some False) [staffed_team, staffed_team\<lparr>team_id := 4\<rparr>])) =
     [staffed_team, staffed_team\<lparr>team_id := 4\<rparr>] \<and>
   getLowestLevel (Some staffed_team) = getLowestLevel (Some (staffed_team\<lparr>team_id := 4\<rparr>)) \<and>
   fst (process_group (group_X 2)
     (run_state (Some False) [staffed_team, staffed_team\<lparr>team_id := 4\<rparr>])) = Inr () \<and>
   teams (snd (process_group (group_X 2)
     (run_state (Some False) [staffed_team, staffed_team\<lparr>team_id := 4\<rparr>]))) =
     [staffed_team, staffed_team\<lparr>team_id := 4\<rparr>]"
proof -
  let ?twin = "staffed_team\<lparr>team_id := 4\<rparr>"
  let ?s = "run_state (Some False) [staffed_team, ?twin]"
  have a: "find_teams (group_id (group_X 2)) (teams ?s) = [staffed_team, ?twin]"
    by (simp add: group_X_def run_state_def find_teams_def staffed_team_def)
  have b: "getLowestLevel (Some staffed_team) = getLowestLevel (Some ?twin)"
    by (simp add: getLowestLevel_def)
  from no_update_when_not_eligible [OF a disjI1 [OF b]]
  have "fst (process_group (group_X 2) ?s) = Inr ()"
    and "teams (snd (process_group (group_X 2) ?s)) = teams ?s"
    by auto
  moreover have "teams ?s = [staffed_team, ?twin]" by (simp add: run_state_def)
  ultimately show ?thesis using a b by simp
qed

text \<open>
  The claim as stated speaks of any record of the group without users. Three teams under
  the code \<open>"X"\<close>, the first two on different levels and with users, the third without
  users: the third record is never read, and the first team's code is rewritten.
\<close>

theorem userless_third_record_counterexample:
  "find_teams (js ''X'') [staffed_team, other_team, third_team\<lparr>users := []\<rparr>] =
     [staffed_team, other_team, third_team\<lparr>users := []\<rparr>] \<and>
   users (third_team\<lparr>users := []\<rparr>) = [] \<and>
   code staffed_team = js ''X'' \<and>
   main (run_state (Some False) [staffed_team, other_team, third_team\<lparr>users := []\<rparr>]) =
     (Inr (), (run_state (Some False) [staffed_team, other_team, third_team\<lparr>users := []\<rparr>])
        \<lparr>teams := [staffed_team\<lparr>code := js ''acme-g1-g2-Test_Team''\<rparr>, other_team,
                   third_team\<lparr>users := []\<rparr>],
         trace := [Log (UsingDomain (js ''acme'')), Aggregate, Find (js ''X''),
           Log (CanBeMigrated (js ''Test Team'')), Log (Migrating (js ''Test Team'') 1),
           Update 1 (staffed_team\<lparr>code := js ''acme-g1-g2-Test_Team''\<rparr>),
           Log (CodeChanged (js ''Test Team'') (js ''acme-g1-g2-Test_Team'')), Log Done]\<rparr>)"
  by (simp add: eval_defs run_state_def staffed_team_def other_team_def third_team_def)

text \<open>
  C5. The claim asks that a group of default teams is skipped. The documents of the
  aggregation have no \<open>defaultTeam\<close> field, so the test \<open>team.defaultTeam\<close> never holds: for two
  default teams under one code the group is not skipped, \<open>find\<close> is issued and returns no
  document, and \<open>checkDups\<close> throws.
\<close>

theorem default_team_group_not_skipped:
  "aggregate [staffed_team\<lparr>defaultTeam := True\<rparr>, other_team\<lparr>defaultTeam := True\<rparr>] =
     [\<lparr>group_id = js ''X'', count = 2, group_defaultTeam = None\<rparr>] \<and>
   main (run_state (Some True)
           [staffed_team\<lparr>defaultTeam := True\<rparr>, other_team\<lparr>defaultTeam := True\<rparr>]) =
     (Inl TypeError,
      (run_state (Some True)
           [staffed_team\<lparr>defaultTeam := True\<rparr>, other_team\<lparr>defaultTeam := True\<rparr>])
        \<lparr>trace := [Log (UsingDomain (js ''acme'')), Aggregate, Find (js ''X'')]\<rparr>)"
  by (simp add: eval_defs run_state_def staffed_team_def other_team_def)

text \<open>
  C6. When \<open>dryrun\<close> is true or was not passed, the run leaves the collection as it was and
  issues no update, whatever the collection holds; and a run without \<open>dryrun\<close> is the run with
  \<open>dryrun = true\<close>, the global being set to true.
\<close>

theorem dryrun_issues_no_update:
  "(dryrun s \<noteq> Some False \<longrightarrow>
      teams (snd (main s)) = teams s \<and>
      (\<exists>evs. trace (snd (main s)) = trace s @ evs \<and>
         (\<forall>q document. Update q document \<notin> set evs))) \<and>
   (dryrun s = None \<and> domain s \<noteq> None \<longrightarrow>
      main s = main (s\<lparr>dryrun := Some True\<rparr>) \<and> dryrun (snd (main s)) = Some True)"
proof (intro conjI impI)
  assume "dryrun s \<noteq> Some False"
  then show "teams (snd (main s)) = teams s"
    and "\<exists>evs. trace (snd (main s)) = trace s @ evs \<and>
         (\<forall>q document. Update q document \<notin> set evs)"
    using main_dry [of s] by simp_all
next
  assume a: "dryrun s = None \<and> domain s \<noteq> None"
  then show "main s = main (s\<lparr>dryrun := Some True\<rparr>)"
    by (simp add: main_default_dryrun)
  show "dryrun (snd (main s)) = Some True"
    using a main_dryrun_kept [of s] by simp
qed

theorem dryrun_issues_no_update_witness:
  "dryrun (run_state None [staffed_team, other_team]) \<noteq> Some False \<and>
   dryrun (run_state None [staffed_team, other_team]) = None \<and>
   domain (run_state None [staffed_team, other_team]) \<noteq> None \<and>
   teams (snd (main (run_state None [staffed_team, other_team]))) = [staffed_team, other_team] \<and>
   dryrun (snd (main (run_state None [staffed_team, other_team]))) = Some True \<and>
   main (run_state None [staffed_team, other_team]) =
     main (run_state (Some True) [staffed_team, other_team]) \<and>
   trace (snd (main (run_state None [staffed_team, other_team]))) =
     [Log (UsingDomain (js ''acme'')), Aggregate, Find (js ''X''),
      Log (CanBeMigrated (js ''Test Team'')), Log (Migrating (js ''Test Team'') 1),
      PrintJson 1 (staffed_team\<lparr>code := js ''acme-g1-g2-Test_Team''\<rparr>),
      Log DryRunNoOperations, Log Done]"
proof -
  let ?s = "run_state None [staffed_team, other_team]"
  have a: "dryrun ?s \<noteq> Some False" "dryrun ?s = None" "domain ?s \<noteq> None"
    by (simp_all add: run_state_def)
  have upd: "?s\<lparr>dryrun := Some True\<rparr> = run_state (Some True) [staffed_team, other_team]"
    by (simp add: run_state_def)
  have ts: "teams ?s = [staffed_team, other_team]"
    by (simp add: run_state_def)
  have tr: "trace (snd (main ?s)) =
     [Log (UsingDomain (js ''acme'')), Aggregate, Find (js ''X''),
      Log (CanBeMigrated (js ''Test Team'')), Log (Migrating (js ''Test Team'') 1),
      PrintJson 1 (staffed_team\<lparr>code := js ''acme-g1-g2-Test_Team''\<rparr>),
      Log DryRunNoOperations, Log Done]"
    by (simp add: eval_defs run_state_def staffed_team_def other_team_def)
  from dryrun_issues_no_update [of ?s] a
  have "teams (snd (main ?s)) = teams ?s"
    and "main ?s = main (?s\<lparr>dryrun := Some True\<rparr>)"
    and "dryrun (snd (main ?s)) = Some True"
    by blast+
  then have "teams (snd (main ?s)) = [staffed_team, other_team]"
    and "main ?s = main (run_state (Some True) [staffed_team, other_team])"
    and "dryrun (snd (main ?s)) = Some True"
    by (simp_all only: upd ts)
  with a tr show ?thesis by blast
qed

text \<open>
  C7. Without a domain, or on a database that is not \<open>fh-aaa\<close>, \<open>main\<close> throws (the domain
  is checked first) before anything is logged and before any call on the collection: the
  trace and the collection are as they were.
\<close>

theorem precondition_failure_aborts:
  assumes "domain s = None \<or> dbName s \<noteq> js ''fh-aaa''"
  shows "fst (main s) =
           Inl (if domain s = None then DomainMustBeDefined else MustRunOnFhAaa) \<and>
         trace (snd (main s)) = trace s \<and> teams (snd (main s)) = teams s"
proof (cases "domain s")
  case None
  then show ?thesis by (simp add: main_def)
next
  case (Some d)
  with assms have "dbName s \<noteq> js ''fh-aaa''" by simp
  with Some show ?thesis by (simp add: main_def Let_def)
qed

theorem precondition_failure_aborts_witness:
  "domain ((run_state None [staffed_team, other_team])\<lparr>domain := None\<rparr>) = None \<and>
   main ((run_state None [staffed_team, other_team])\<lparr>domain := None\<rparr>) =
     (Inl DomainMustBeDefined, (run_state None [staffed_team, other_team])\<lparr>domain := None\<rparr>) \<and>
   dbName ((run_state None [staffed_team, other_team])\<lparr>dbName := js ''test''\<rparr>) \<noteq> js ''fh-aaa'' \<and>
   fst (main ((run_state None [staffed_team, other_team])\<lparr>dbName := js ''test''\<rparr>)) =
     Inl MustRunOnFhAaa \<and>
   trace (snd (main ((run_state None [staffed_team, other_team])\<lparr>dbName := js ''test''\<rparr>))) = [] \<and>
   teams (snd (main ((run_state None [staffed_team, other_team])\<lparr>dbName := js ''test''\<rparr>))) =
     [staffed_team, other_team]"
proof -
  let ?s1 = "(run_state None [staffed_team, other_team])\<lparr>domain := None\<rparr>"
  let ?s2 = "(run_state None [staffed_team, other_team])\<lparr>dbName := js ''test''\<rparr>"
  have a: "domain ?s1 = None" by simp
  have b: "dbName ?s2 \<noteq> js ''fh-aaa''" by (simp add: run_state_def js_def)
  have c: "domain ?s2 \<noteq> None" by (simp add: run_state_def)
  have d: "trace ?s2 = []" "teams ?s2 = [staffed_team, other_team]"
    by (simp_all add: run_state_def)
  have e: "main ?s1 = (Inl DomainMustBeDefined, ?s1)"
    using precondition_failure_aborts [OF disjI1 [OF a]] a
    by (simp add: main_def)
  from precondition_failure_aborts [OF disjI2 [OF b]] c d
  have "fst (main ?s2) = Inl MustRunOnFhAaa" "trace (snd (main ?s2)) = []"
    "teams (snd (main ?s2)) = [staffed_team, other_team]"
    by simp_all
  with a b e show ?thesis by blast
qed

text \<open>
  C8. For every team whose business-objects mapping is not empty, \<open>getLowestLevel\<close> returns a
  key of the mapping, and no key of the mapping is longer than it.
\<close>

theorem getLowestLevel_longest_key:
  assumes "business_objects t \<noteq> []"
  shows "\<exists>l. getLowestLevel (Some t) = Inr (Some l) \<and>
           l \<in> fst ` set (business_objects t) \<and>
           (\<forall>k \<in> fst ` set (business_objects t). length k \<le> length l)"
proof -
  let ?keys = "map fst (business_objects t)"
  from assms have "?keys \<noteq> []" by simp
  from head_longest [OF this] obtain l ls where
    sorted: "js_sort (\<lambda>a b. int (length b) - int (length a)) ?keys = l # ls"
    and key: "l \<in> set ?keys"
    and longest: "\<forall>k \<in> set ?keys. length k \<le> length l"
    by blast
  from sorted have "getLowestLevel (Some t) = Inr (Some l)"
    by (simp add: getLowestLevel_def js_index_Cons_0)
  with key longest show ?thesis by auto
qed

theorem getLowestLevel_longest_key_witness:
  "business_objects example_team \<noteq> [] \<and>
   getLowestLevel (Some example_team) = Inr (Some (js ''abc'')) \<and>
   js ''abc'' \<in> fst ` set (business_objects example_team) \<and>
   length (js ''a'') \<le> length (js ''abc'') \<and> length (js ''xyz'') \<le> length (js ''abc'')"
proof -
  have ne: "business_objects example_team \<noteq> []"
    by (simp add: example_team_def)
  have v: "getLowestLevel (Some example_team) = Inr (Some (js ''abc''))"
    by (simp add: example_team_def getLowestLevel_def js_sort_def js_index_def js_def)
  from getLowestLevel_longest_key [OF ne] v
  have "js ''abc'' \<in> fst ` set (business_objects example_team)"
    by auto
  with ne v show ?thesis by (simp add: js_def)
qed

text \<open>
  C9 (as amended). For a group of more than two records \<open>checkDups\<close> classifies the group
  from its first two records and ignores the others, and there is no outcome for an
  unsupported number of records: the loop body handles the group as it would the pair. When
  the answer is false it only reads the group and logs. When the answer is true it computes
  the new code of the first record and, in simulation mode, prints the update command,
  otherwise issues that one update; if computing the code throws, the run ends there.
\<close>

theorem larger_group_handled_from_first_two:
  assumes "\<not> js_truthy (group_defaultTeam g)"
    and "find_teams (group_id g) (teams s) = fa # fb # others"
  shows "checkDups (fa # fb # others) = checkDups [fa, fb] \<and>
    (\<forall>ms. checkDups [fa, fb] = Inr (False, ms) \<longrightarrow>
       process_group g s =
         (Inr (), s\<lparr>trace := trace s @ Find (group_id g) # map Log ms @ [Log Done]\<rparr>)) \<and>
    (\<forall>ms e. checkDups [fa, fb] = Inr (True, ms) \<and> createTeamCode (domain s) fa = Inl e \<longrightarrow>
       process_group g s =
         (Inl e, s\<lparr>trace := trace s @ Find (group_id g) # map Log ms @
                      [Log (Migrating (name fa) (team_id fa))]\<rparr>)) \<and>
    (\<forall>ms c. checkDups [fa, fb] = Inr (True, ms) \<and> createTeamCode (domain s) fa = Inr c \<longrightarrow>
       process_group g s =
         (Inr (),
          if js_truthy (dryrun s) then
            s\<lparr>trace := trace s @ Find (group_id g) # map Log ms @
                 [Log (Migrating (name fa) (team_id fa)),
                  PrintJson (team_id fa) (fa\<lparr>code := c\<rparr>),
                  Log DryRunNoOperations, Log Done]\<rparr>
          else
            s\<lparr>teams := update_teams (team_id fa) (fa\<lparr>code := c\<rparr>) (teams s),
              trace := trace s @ Find (group_id g) # map Log ms @
                 [Log (Migrating (name fa) (team_id fa)),
                  Update (team_id fa) (fa\<lparr>code := c\<rparr>),
                  Log (CodeChanged (name fa) c), Log Done]\<rparr>))"
proof (intro conjI allI impI)
  show "checkDups (fa # fb # others) = checkDups [fa, fb]"
    by (rule checkDups_ignores_rest)
next
  note same = checkDups_ignores_rest [of fa fb others]
  fix ms assume "checkDups [fa, fb] = Inr (False, ms)"
  with same assms(2) have "checkDups (find_teams (group_id g) (teams s)) = Inr (False, ms)"
    by simp
  from process_group_not_eligible [OF assms(1) this]
  show "process_group g s =
       (Inr (), s\<lparr>trace := trace s @ Find (group_id g) # map Log ms @ [Log Done]\<rparr>)" .
next
  note same = checkDups_ignores_rest [of fa fb others]
  fix ms e
  assume a: "checkDups [fa, fb] = Inr (True, ms) \<and> createTeamCode (domain s) fa = Inl e"
  with same have cd: "checkDups (fa # fb # others) = Inr (True, ms)" by simp
  from a have ce: "createTeamCode (domain s) fa = Inl e" by simp
  from process_group_code_throws [OF assms(1) assms(2) cd ce]
  show "process_group g s =
       (Inl e, s\<lparr>trace := trace s @ Find (group_id g) # map Log ms @
                    [Log (Migrating (name fa) (team_id fa))]\<rparr>)" .
next
  note same = checkDups_ignores_rest [of fa fb others]
  fix ms c
  assume a: "checkDups [fa, fb] = Inr (True, ms) \<and> createTeamCode (domain s) fa = Inr c"
  with same have cd: "checkDups (fa # fb # others) = Inr (True, ms)" by simp
  from a have cc: "createTeamCode (domain s) fa = Inr c" by simp
  from process_group_eligible [OF assms(1) assms(2) cd cc]
  show "process_group g s =
       (Inr (),
        if js_truthy (dryrun s) then
          s\<lparr>trace := trace s @ Find (group_id g) # map Log ms @
               [Log (Migrating (name fa) (team_id fa)),
                PrintJson (team_id fa) (fa\<lparr>code := c\<rparr>),
                Log DryRunNoOperations, Log Done]\<rparr>
        else
          s\<lparr>teams := update_teams (team_id fa) (fa\<lparr>code := c\<rparr>) (teams s),
            trace := trace s @ Find (group_id g) # map Log ms @
               [Log (Migrating (name fa) (team_id fa)),
                Update (team_id fa) (fa\<lparr>code := c\<rparr>),
                Log (CodeChanged (name fa) c), Log Done]\<rparr>)" .
qed

theorem larger_group_handled_from_first_two_witness:
  "\<not> js_truthy (group_defaultTeam (group_X 3)) \<and>
   find_teams (group_id (group_X 3))
     (teams (run_state (Some True) [staffed_team, other_team, third_team])) =
     [staffed_team, other_team, third_team] \<and>
   checkDups [staffed_team, other_team] = Inr (True, [CanBeMigrated (js ''Test Team'')]) \<and>
   checkDups [staffed_team, other_team, third_team] =
     Inr (True, [CanBeMigrated (js ''Test Team'')]) \<and>
   createTeamCode (domain (run_state (Some True) [staffed_team, other_team, third_team]))
     staffed_team = Inr (js ''acme-g1-g2-Test_Team'') \<and>
   process_group (group_X 3) (run_state (Some True) [staffed_team, other_team, third_team]) =
     (Inr (), (run_state (Some True) [staffed_team, other_team, third_team])
        \<lparr>trace := [Find (js ''X''), Log (CanBeMigrated (js ''Test Team'')),
                   Log (Migrating (js ''Test Team'') 1),
                   PrintJson 1 (staffed_team\<lparr>code := js ''acme-g1-g2-Test_Team''\<rparr>),
                   Log DryRunNoOperations, Log Done]\<rparr>)"
proof -
  let ?s = "run_state (Some True) [staffed_team, other_team, third_team]"
  have h1: "\<not> js_truthy (group_defaultTeam (group_X 3))"
    by (simp add: group_X_def js_truthy_def)
  have h2: "find_teams (group_id (group_X 3)) (teams ?s) = [staffed_team, other_team, third_team]"
    by (simp add: group_X_def run_state_def find_teams_def staffed_team_def other_team_def
        third_team_def)
  have cd: "checkDups [staffed_team, other_team] = Inr (True, [CanBeMigrated (js ''Test Team'')])"
    by (simp add: checkDups_def getLowestLevel_def js_sort_def js_index_def staffed_team_def
        other_team_def js_def)
  have cc: "createTeamCode (domain ?s) staffed_team = Inr (js ''acme-g1-g2-Test_Team'')"
    by (simp add: run_state_def staffed_team_def createTeamCode_def getLowestLevel_def
        js_sort_def js_index_def js_def replace_whitespace_def is_whitespace_def)
  have dry: "js_truthy (dryrun ?s)" by (simp add: run_state_def js_truthy_def)
  note facts = larger_group_handled_from_first_two [OF h1 h2]
  from facts cd have cd3: "checkDups [staffed_team, other_team, third_team] =
     Inr (True, [CanBeMigrated (js ''Test Team'')])"
    by simp
  from facts cd cc dry have "process_group (group_X 3) ?s =
     (Inr (), ?s\<lparr>trace := trace ?s @ Find (group_id (group_X 3)) #
          map Log [CanBeMigrated (js ''Test Team'')] @
          [Log (Migrating (name staffed_team) (team_id staffed_team)),
           PrintJson (team_id staffed_team) (staffed_team\<lparr>code := js ''acme-g1-g2-Test_Team''\<rparr>),
           Log DryRunNoOperations, Log Done]\<rparr>)"
    by auto
  moreover have "team_id staffed_team = 1" "name staffed_team = js ''Test Team''"
    by (simp_all add: staffed_team_def)
  moreover have "trace ?s = []" "group_id (group_X 3) = js ''X''"
    by (simp_all add: run_state_def group_X_def)
  ultimately have "process_group (group_X 3) ?s =
     (Inr (), ?s\<lparr>trace := [Find (js ''X''), Log (CanBeMigrated (js ''Test Team'')),
                   Log (Migrating (js ''Test Team'') 1),
                   PrintJson 1 (staffed_team\<lparr>code := js ''acme-g1-g2-Test_Team''\<rparr>),
                   Log DryRunNoOperations, Log Done]\<rparr>)"
    by simp
  with h1 h2 cd cd3 cc show ?thesis by blast
qed

text \<open>
  The claim as stated asks that a group of three is left alone and reported. Three teams
  under the code \<open>"X"\<close>, the first two on different levels and with users: \<open>checkDups\<close>
  answers true and the first team's code is rewritten.
\<close>

theorem three_record_group_counterexample:
  "aggregate [staffed_team, other_team, third_team] =
     [\<lparr>group_id = js ''X'', count = 3, group_defaultTeam = None\<rparr>] \<and>
   find_teams (js ''X'') [staffed_team, other_team, third_team] =
     [staffed_team, other_team, third_team] \<and>
   checkDups [staffed_team, other_team, third_team] =
     Inr (True, [CanBeMigrated (js ''Test Team'')]) \<and>
   main (run_state (Some False) [staffed_team, other_team, third_team]) =
     (Inr (), (run_state (Some False) [staffed_team, other_team, third_team])
        \<lparr>teams := [staffed_team\<lparr>code := js ''acme-g1-g2-Test_Team''\<rparr>, other_team, third_team],
         trace := [Log (UsingDomain (js ''acme'')), Aggregate, Find (js ''X''),
           Log (CanBeMigrated (js ''Test Team'')), Log (Migrating (js ''Test Team'') 1),
           Update 1 (staffed_team\<lparr>code := js ''acme-g1-g2-Test_Team''\<rparr>),
           Log (CodeChanged (js ''Test Team'') (js ''acme-g1-g2-Test_Team'')), Log Done]\<rparr>)"
  by (simp add: eval_defs run_state_def staffed_team_def other_team_def third_team_def)

text \<open>
  C10. When \<open>find\<close> returns fewer than two documents for a group that is not skipped,
  \<open>checkDups\<close> reads \<open>undefined\<close> from the array and throws a TypeError in
  \<open>getLowestLevel\<close>; the loop ends there, after the \<open>find\<close>, and the groups that follow are
  not processed.
\<close>

theorem short_group_aborts:
  assumes "\<not> js_truthy (group_defaultTeam g)"
    and "length (find_teams (group_id g) (teams s)) < 2"
  shows "checkDups (find_teams (group_id g) (teams s)) = Inl TypeError \<and>
         process_groups (g # rest) s =
           (Inl TypeError, s\<lparr>trace := trace s @ [Find (group_id g)]\<rparr>)"
proof -
  from assms(2) have cd: "checkDups (find_teams (group_id g) (teams s)) = Inl TypeError"
    by (rule checkDups_short)
  from process_group_throw [OF assms(1) cd]
  have "process_groups (g # rest) s = (Inl TypeError, emit (Find (group_id g)) s)"
    by simp
  with cd show ?thesis by (simp add: emit_def)
qed

theorem short_group_aborts_witness:
  "\<not> js_truthy (group_defaultTeam (group_X 2)) \<and>
   find_teams (group_id (group_X 2))
     (teams (run_state (Some True) [staffed_team, other_team\<lparr>defaultTeam := True\<rparr>])) =
     [staffed_team] \<and>
   process_groups [group_X 2, group_X 5]
     (run_state (Some True) [staffed_team, other_team\<lparr>defaultTeam := True\<rparr>]) =
     (Inl TypeError,
      (run_state (Some True) [staffed_team, other_team\<lparr>defaultTeam := True\<rparr>])
        \<lparr>trace := [Find (js ''X'')]\<rparr>)"
proof -
  let ?s = "run_state (Some True) [staffed_team, other_team\<lparr>defaultTeam := True\<rparr>]"
  have a: "\<not> js_truthy (group_defaultTeam (group_X 2))"
    by (simp add: group_X_def js_truthy_def)
  have b: "find_teams (group_id (group_X 2)) (teams ?s) = [staffed_team]"
    by (simp add: group_X_def run_state_def find_teams_def staffed_team_def other_team_def)
  then have c: "length (find_teams (group_id (group_X 2)) (teams ?s)) < 2" by simp
  from short_group_aborts [OF a c, of "[group_X 5]"]
  have "process_groups [group_X 2, group_X 5] ?s =
     (Inl TypeError, ?s\<lparr>trace := trace ?s @ [Find (group_id (group_X 2))]\<rparr>)"
    by simp
  then have "process_groups [group_X 2, group_X 5] ?s =
     (Inl TypeError, ?s\<lparr>trace := [Find (js ''X'')]\<rparr>)"
    by (simp add: run_state_def group_X_def)
  with a b show ?thesis by blast
qed

end
